theory Spec2Isabelle
  imports Main "HOL-Library.Sublist"
begin

section \<open>Python values used by the dotfiles server\<close>

text \<open>
  A Python \<open>str\<close> is a sequence of Unicode code points, so it is modelled as a list of
  natural numbers. String literals of the source are written with \<open>lit\<close>, which maps
  every character of an ASCII literal to its code point.
\<close>

type_synonym codepoint = nat
type_synonym pystr = "codepoint list"

definition lit :: "string \<Rightarrow> pystr" where
  "lit s = map of_char s"

definition newline :: codepoint where
  "newline = 10"

definition slash :: codepoint where
  "slash = 47"

text \<open>
  The characters that \<open>str.strip()\<close> without argument removes are those for which
  \<open>str.isspace()\<close> holds: the ASCII controls 9 to 13 and 28 to 31, the space, and the
  Unicode spaces and separators listed here.
\<close>

definition isspace :: "codepoint \<Rightarrow> bool" where
  "isspace c \<longleftrightarrow>
     (9 \<le> c \<and> c \<le> 13) \<or> (28 \<le> c \<and> c \<le> 32) \<or> c = 133 \<or> c = 160 \<or> c = 5760 \<or>
     (8192 \<le> c \<and> c \<le> 8202) \<or> c = 8232 \<or> c = 8233 \<or> c = 8239 \<or> c = 8287 \<or> c = 12288"

text \<open>\<open>s.strip()\<close>: the leading and the trailing run of whitespace are removed.\<close>

definition str_strip :: "pystr \<Rightarrow> pystr" where
  "str_strip s = rev (dropWhile isspace (rev (dropWhile isspace s)))"

text \<open>
  \<open>s.split(sep)\<close> for a separator of one character: the fields between the occurrences
  of the separator, so that a string with \<open>n\<close> separators has \<open>n + 1\<close> fields and the
  empty string has the single field \<open>""\<close>.
\<close>

fun str_split :: "pystr \<Rightarrow> codepoint \<Rightarrow> pystr list" where
  "str_split [] sep = [[]]"
| "str_split (c # cs) sep =
     (if c = sep then [] # str_split cs sep
      else (case str_split cs sep of
              [] \<Rightarrow> [[c]]
            | field # fields \<Rightarrow> (c # field) # fields))"

text \<open>\<open>sep.join(xs)\<close>.\<close>

fun str_join :: "pystr \<Rightarrow> pystr list \<Rightarrow> pystr" where
  "str_join sep [] = []"
| "str_join sep [x] = x"
| "str_join sep (x # y # ys) = x @ sep @ str_join sep (y # ys)"

text \<open>\<open>str(n)\<close> for a non-negative integer, as an f-string renders \<open>len(files)\<close>.\<close>

fun str_nat :: "nat \<Rightarrow> pystr" where
  "str_nat n = (if n < 10 then [48 + n] else str_nat (n div 10) @ [48 + n mod 10])"

declare str_nat.simps [simp del]

text \<open>
  Reading a file opened with \<open>open(path, "r", encoding="utf-8")\<close>: the bytes are decoded
  as strict UTF-8 (no overlong form, no surrogate, nothing above U+10FFFF; \<open>None\<close> is
  \<open>UnicodeDecodeError\<close>), and in the decoded text every \<open>\r\n\<close> and every other \<open>\r\<close>
  becomes \<open>\n\<close>, which is the newline translation of text mode.
\<close>

type_synonym pybytes = "nat list"

definition is_continuation :: "nat \<Rightarrow> bool" where
  "is_continuation b \<longleftrightarrow> 128 \<le> b \<and> b < 192"

fun utf8_decode :: "pybytes \<Rightarrow> pystr option" where
  "utf8_decode [] = Some []"
| "utf8_decode (b # bs) =
     (if b < 128 then map_option ((#) b) (utf8_decode bs)
      else if 194 \<le> b \<and> b < 224 then
        (case bs of
           c1 # rest \<Rightarrow>
             if is_continuation c1
             then map_option ((#) ((b - 192) * 64 + (c1 - 128))) (utf8_decode rest)
             else None
         | _ \<Rightarrow> None)
      else if 224 \<le> b \<and> b < 240 then
        (case bs of
           c1 # c2 # rest \<Rightarrow>
             (let cp = (b - 224) * 4096 + (c1 - 128) * 64 + (c2 - 128)
              in if is_continuation c1 \<and> is_continuation c2 \<and> 2048 \<le> cp
                    \<and> \<not> (55296 \<le> cp \<and> cp < 57344)
                 then map_option ((#) cp) (utf8_decode rest)
                 else None)
         | _ \<Rightarrow> None)
      else if 240 \<le> b \<and> b < 245 then
        (case bs of
           c1 # c2 # c3 # rest \<Rightarrow>
             (let cp = (b - 240) * 262144 + (c1 - 128) * 4096 + (c2 - 128) * 64 + (c3 - 128)
              in if is_continuation c1 \<and> is_continuation c2 \<and> is_continuation c3
                    \<and> 65536 \<le> cp \<and> cp \<le> 1114111
                 then map_option ((#) cp) (utf8_decode rest)
                 else None)
         | _ \<Rightarrow> None)
      else None)"

fun translate_newlines :: "pystr \<Rightarrow> pystr" where
  "translate_newlines [] = []"
| "translate_newlines [c] = [if c = 13 then 10 else c]"
| "translate_newlines (c # d # cs) =
     (if c = 13 \<and> d = 10 then 10 # translate_newlines cs
      else if c = 13 then 10 # translate_newlines (d # cs)
      else c # translate_newlines (d # cs))"

text \<open>
  The values of \<open>Dict[str, Any]\<close> that a decoded JSON request can hold. A float is kept
  as its sign, mantissa and exponent, or as an infinity or a NaN; the code only looks at
  whether it is zero.
\<close>

datatype pyfloat = Finite bool nat int | Infinity bool | NaN

datatype pyval =
    PyNone
  | PyBool bool
  | PyInt int
  | PyFloat pyfloat
  | PyStr pystr
  | PyList "pyval list"
  | PyDict "(pystr \<times> pyval) list"

text \<open>Truth value testing, as in \<open>if not filepath\<close>.\<close>

fun truthy :: "pyval \<Rightarrow> bool" where
  "truthy PyNone = False"
| "truthy (PyBool b) = b"
| "truthy (PyInt i) = (i \<noteq> 0)"
| "truthy (PyFloat (Finite _ m _)) = (m \<noteq> 0)"
| "truthy (PyFloat _) = True"
| "truthy (PyStr s) = (s \<noteq> [])"
| "truthy (PyList xs) = (xs \<noteq> [])"
| "truthy (PyDict kvs) = (kvs \<noteq> [])"

fun type_name :: "pyval \<Rightarrow> pystr" where
  "type_name PyNone = lit ''NoneType''"
| "type_name (PyBool _) = lit ''bool''"
| "type_name (PyInt _) = lit ''int''"
| "type_name (PyFloat _) = lit ''float''"
| "type_name (PyStr _) = lit ''str''"
| "type_name (PyList _) = lit ''list''"
| "type_name (PyDict _) = lit ''dict''"

text \<open>\<open>d.get(key, default)\<close> on a dictionary.\<close>

definition dict_get :: "(pystr \<rightharpoonup> pyval) \<Rightarrow> pystr \<Rightarrow> pyval \<Rightarrow> pyval" where
  "dict_get d key dflt = (case d key of None \<Rightarrow> dflt | Some v \<Rightarrow> v)"

text \<open>An exception: its class and the text \<open>str(e)\<close>.\<close>

datatype py_exc = Exc (exc_class: pystr) (exc_str: pystr)

text \<open>
  \<open>os.path.join(a, b)\<close> on a POSIX system for two strings: a second component that
  starts with a slash replaces the first, as does any second component when the first is
  empty; otherwise the components are put together with exactly one separator between
  them unless the first already ends with one.
\<close>

definition startswith :: "pystr \<Rightarrow> pystr \<Rightarrow> bool" where
  "startswith s p = (take (length p) s = p)"

definition endswith :: "pystr \<Rightarrow> pystr \<Rightarrow> bool" where
  "endswith s p = (length p \<le> length s \<and> drop (length s - length p) s = p)"

definition os_path_join :: "pystr \<Rightarrow> pystr \<Rightarrow> pystr" where
  "os_path_join a b =
     (if startswith b [slash] \<or> a = [] then b
      else if endswith a [slash] then a @ b
      else a @ [slash] @ b)"

section \<open>The environment of the server\<close>

text \<open>\<open>subprocess.CompletedProcess\<close> of a run with captured text output.\<close>

record completed_process =
  returncode :: int
  stdout :: pystr
  stderr :: pystr

text \<open>
  What the process observes of the machine it runs on: the expansion of \<open>~\<close> in a
  path; the outcome of \<open>subprocess.run\<close> on a command line with captured text output (an
  exception when the executable cannot be started or its output cannot be decoded as
  text); whether a path exists; the bytes of the file at a path (an exception when it
  cannot be opened or read); and the message of the \<open>UnicodeDecodeError\<close> that the codec
  raises on bytes that are not UTF-8.
\<close>

record env =
  expanduser :: "pystr \<Rightarrow> pystr"
  subprocess_run :: "pystr list \<Rightarrow> py_exc + completed_process"
  path_exists :: "pystr \<Rightarrow> bool"
  read_bytes :: "pystr \<Rightarrow> py_exc + pybytes"
  codec_error :: "pybytes \<Rightarrow> pystr"

text \<open>
  \<open>with open(path, "r", encoding="utf-8") as f: return f.read()\<close>: the text read, or the
  exception raised on the way.
\<close>

definition open_read :: "env \<Rightarrow> pystr \<Rightarrow> py_exc + pystr" where
  "open_read e path =
     (case read_bytes e path of
        Inl exc \<Rightarrow> Inl exc
      | Inr bs \<Rightarrow>
          (case utf8_decode bs of
             None \<Rightarrow> Inl (Exc (lit ''UnicodeDecodeError'') (codec_error e bs))
           | Some decoded \<Rightarrow> Inr (translate_newlines decoded)))"

text \<open>The calls a function makes to the operating system, in order.\<close>

datatype os_call = RunProcess "pystr list" | PathExists pystr | OpenRead pystr

text \<open>\<open>TextContent(type=..., text=...)\<close>, one segment of a tool response.\<close>

record text_content =
  tc_type :: pystr
  tc_text :: pystr

section \<open>The operations of the server\<close>

text \<open>
  Every operation returns the calls it made to the operating system together with its
  result; a result \<open>Inl exc\<close> is the exception \<open>exc\<close> leaving the function.
\<close>

definition run_git_command :: "env \<Rightarrow> pystr list \<Rightarrow> os_call list \<times> (py_exc + completed_process)" where
  "run_git_command e args =
     (let git_dir = expanduser e (lit ''~/.cfg'');
          work_tree = expanduser e (lit ''~'');
          cmd = [lit ''git'', lit ''--git-dir='' @ git_dir, lit ''--work-tree='' @ work_tree] @ args
      in ([RunProcess cmd], subprocess_run e cmd))"

definition list_dotfiles :: "env \<Rightarrow> os_call list \<times> (py_exc + pystr list)" where
  "list_dotfiles e =
     (case run_git_command e [lit ''ls-files''] of
        (calls, Inl exc) \<Rightarrow> (calls, Inl exc)
      | (calls, Inr result) \<Rightarrow>
          (calls, Inr (if returncode result \<noteq> 0 then []
                       else [str_strip f. f \<leftarrow> str_split (stdout result) newline, str_strip f \<noteq> []])))"

definition get_file_content :: "env \<Rightarrow> pystr \<Rightarrow> os_call list \<times> pystr" where
  "get_file_content e filepath =
     (let full_path = os_path_join (expanduser e (lit ''~'')) filepath
      in if \<not> path_exists e full_path
         then ([PathExists full_path], lit ''File not found: '' @ filepath)
         else ([PathExists full_path, OpenRead full_path],
               (case open_read e full_path of
                  Inr content \<Rightarrow> content
                | Inl exc \<Rightarrow> lit ''Error reading file: '' @ exc_str exc)))"

text \<open>
  \<open>call_tool\<close>. The argument \<open>filepath\<close> is typed \<open>Any\<close>: a value that is true and not
  a \<open>str\<close> reaches \<open>os.path.join\<close> inside \<open>get_file_content\<close>, which raises
  \<open>TypeError\<close> before the file system is touched.
\<close>

definition call_tool :: "env \<Rightarrow> pystr \<Rightarrow> (pystr \<rightharpoonup> pyval) \<Rightarrow> os_call list \<times> (py_exc + text_content list)" where
  "call_tool e name arguments =
     (if name = lit ''list_dotfiles'' then
        (case list_dotfiles e of
           (calls, Inl exc) \<Rightarrow> (calls, Inl exc)
         | (calls, Inr files) \<Rightarrow>
             (let txt =
                    (if files = [] then lit ''No dotfiles found or git repository not accessible.''
                     else lit ''Found '' @ str_nat (length files) @ lit '' dotfiles:\<newline>\<newline>''
                          @ str_join (lit ''\<newline>'') files)
              in (calls, Inr [\<lparr>tc_type = lit ''text'', tc_text = txt\<rparr>])))
      else if name = lit ''get_dotfile_content'' then
        (let filepath = dict_get arguments (lit ''filepath'') (PyStr [])
         in if \<not> truthy filepath
            then ([], Inr [\<lparr>tc_type = lit ''text'', tc_text = lit ''Error: filepath is required''\<rparr>])
            else (case filepath of
                    PyStr fp \<Rightarrow>
                      (case get_file_content e fp of
                         (calls, content) \<Rightarrow>
                           (calls, Inr [\<lparr>tc_type = lit ''text'',
                                         tc_text = lit ''Content of '' @ fp @ lit '':\<newline>\<newline>'' @ content\<rparr>]))
                  | _ \<Rightarrow>
                      ([], Inl (Exc (lit ''TypeError'')
                                 (lit ''join() argument must be str, bytes, or os.PathLike object, not ''
                                  @ [39] @ type_name filepath @ [39])))))
      else ([], Inr [\<lparr>tc_type = lit ''text'', tc_text = lit ''Unknown tool: '' @ name\<rparr>]))"

section \<open>Reference notions and a sample machine\<close>

text \<open>The number that a string of decimal digits denotes.\<close>

definition decimal_value :: "pystr \<Rightarrow> nat" where
  "decimal_value ds = foldl (\<lambda>a d. 10 * a + (d - 48)) 0 ds"

text \<open>
  The UTF-8 encoding of a text of Unicode scalar values (the code points that are not
  surrogates), against which the decoder is checked.
\<close>

definition is_scalar_value :: "codepoint \<Rightarrow> bool" where
  "is_scalar_value cp \<longleftrightarrow> cp < 55296 \<or> (57344 \<le> cp \<and> cp \<le> 1114111)"

definition utf8_encode_char :: "codepoint \<Rightarrow> pybytes" where
  "utf8_encode_char cp =
     (if cp < 128 then [cp]
      else if cp < 2048 then [192 + cp div 64, 128 + cp mod 64]
      else if cp < 65536 then [224 + cp div 4096, 128 + cp div 64 mod 64, 128 + cp mod 64]
      else [240 + cp div 262144, 128 + cp div 4096 mod 64, 128 + cp div 64 mod 64, 128 + cp mod 64])"

definition utf8_encode :: "pystr \<Rightarrow> pybytes" where
  "utf8_encode s = concat (map utf8_encode_char s)"

text \<open>
  The directory entries that an absolute path names, as the file system walks it when no
  component is a symbolic link (and as \<open>os.path.normpath\<close> computes it): empty components
  and \<open>.\<close> are skipped, \<open>..\<close> goes up one level and stays at the top of the tree.
  \<open>resolve_dots\<close> keeps the entries walked so far innermost first.
\<close>

fun resolve_dots :: "pystr list \<Rightarrow> pystr list \<Rightarrow> pystr list" where
  "resolve_dots walked [] = rev walked"
| "resolve_dots walked (c # cs) =
     (if c = [] \<or> c = lit ''.'' then resolve_dots walked cs
      else if c = lit ''..'' then resolve_dots (tl walked) cs
      else resolve_dots (c # walked) cs)"

definition resolved :: "pystr \<Rightarrow> pystr list" where
  "resolved path = resolve_dots [] (str_split path slash)"

text \<open>The message of the codec for input that starts with the byte \<open>0xff\<close>.\<close>

definition invalid_start_byte :: pystr where
  "invalid_start_byte =
     [39] @ lit ''utf-8'' @ [39] @ lit '' codec can'' @ [39]
     @ lit ''t decode byte 0xff in position 0: invalid start byte''"

text \<open>
  A sample machine: the home directory is \<open>/home/user\<close>, git lists two tracked files
  (one of them twice, one with blanks around it, and an empty line), and five paths
  exist: four files that hold ASCII text, one of them with \<open>\r\n\<close> and \<open>\r\<close> line ends,
  and one file that cannot be opened.
\<close>

definition sample_env :: env where
  "sample_env = \<lparr>
     expanduser = (\<lambda>p. if p = lit ''~'' then lit ''/home/user''
                       else if p = lit ''~/.cfg'' then lit ''/home/user/.cfg'' else p),
     subprocess_run = (\<lambda>cmd. Inr \<lparr>returncode = 0,
        stdout = lit ''.bashrc\<newline>  .config/nvim/init.lua \<newline>\<newline>.bashrc\<newline>'',
        stderr = []\<rparr>),
     path_exists = (\<lambda>p. p = lit ''/home/user/.bashrc'' \<or> p = lit ''/home/user/secret''
                       \<or> p = lit ''/home/user/notes.txt''
                       \<or> p = lit ''/etc/passwd'' \<or> p = lit ''/home/user/../other/.profile''),
     read_bytes = (\<lambda>p. if p = lit ''/home/user/.bashrc'' then Inr (lit ''export X=1\<newline>'')
                      else if p = lit ''/home/user/notes.txt'' then Inr [97, 13, 10, 98, 13, 99, 10]
                      else if p = lit ''/etc/passwd'' then Inr (lit ''root:x:0:0\<newline>'')
                      else if p = lit ''/home/user/../other/.profile'' then Inr (lit ''umask 022\<newline>'')
                      else if p = lit ''/home/user/secret''
                        then Inl (Exc (lit ''PermissionError'')
                                   (lit ''[Errno 13] Permission denied: '' @ [39] @ p @ [39]))
                      else Inl (Exc (lit ''FileNotFoundError'')
                                 (lit ''[Errno 2] No such file or directory: '' @ [39] @ p @ [39]))),
     codec_error = (\<lambda>bs. invalid_start_byte)\<rparr>"

text \<open>The same machine without a git executable: starting the subprocess raises.\<close>

definition no_git_env :: env where
  "no_git_env = sample_env\<lparr>subprocess_run :=
     (\<lambda>cmd. Inl (Exc (lit ''FileNotFoundError'')
                 (lit ''[Errno 2] No such file or directory: '' @ [39] @ lit ''git'' @ [39])))\<rparr>"


text \<open>The same machine without the bare repository: git exits with status 128.\<close>

definition no_repo_env :: env where
  "no_repo_env = sample_env\<lparr>subprocess_run :=
     (\<lambda>cmd. Inr \<lparr>returncode = 128, stdout = [],
                   stderr = lit ''fatal: not a git repository: '' @ [39] @ lit ''/home/user/.cfg'' @ [39]
                            @ lit ''\<newline>''\<rparr>)\<rparr>"

section \<open>Facts about the string operations\<close>

lemma lit_eq_iff [simp]: "lit s = lit t \<longleftrightarrow> s = t"
  unfolding lit_def by (simp add: inj_map_eq_map inj_on_def)

lemma lit_Nil [simp]: "lit [] = []"
  by (simp add: lit_def)

lemma lit_append: "lit (s @ t) = lit s @ lit t"
  by (simp add: lit_def)

lemma comprehension_map_filter:
  "[f x. x \<leftarrow> xs, P (f x)] = filter P (map f xs)"
  by (induction xs) simp_all

lemma str_split_not_Nil: "str_split s sep \<noteq> []"
  by (induction s) (simp_all split: list.splits)

lemma str_split_no_sep: "f \<in> set (str_split s sep) \<Longrightarrow> sep \<notin> set f"
  by (induction s arbitrary: f) (auto split: if_splits list.splits)

lemma str_join_Cons: "fs \<noteq> [] \<Longrightarrow> str_join sep (f # fs) = f @ sep @ str_join sep fs"
  by (cases fs) simp_all

lemma str_join_split: "str_join [sep] (str_split s sep) = s"
proof (induction s)
  case Nil
  show ?case by simp
next
  case (Cons c cs)
  show ?case
  proof (cases "c = sep")
    case True
    with Cons show ?thesis by (simp add: str_join_Cons str_split_not_Nil)
  next
    case False
    obtain f fs where split: "str_split cs sep = f # fs"
      using str_split_not_Nil [of cs sep] by (cases "str_split cs sep") auto
    with Cons False show ?thesis by (cases fs) simp_all
  qed
qed

lemma str_split_length: "length (str_split s sep) = Suc (count_list s sep)"
  by (induction s) (auto split: list.splits simp: str_split_not_Nil)

lemma last_dropWhile: "dropWhile P xs \<noteq> [] \<Longrightarrow> last (dropWhile P xs) = last xs"
  by (induction xs) (auto split: if_splits)

lemma str_strip_decomp:
  "\<exists>a b. s = a @ str_strip s @ b \<and> (\<forall>c\<in>set a. isspace c) \<and> (\<forall>c\<in>set b. isspace c)"
proof -
  let ?d = "dropWhile isspace s"
  let ?b = "rev (takeWhile isspace (rev ?d))"
  have "rev (takeWhile isspace (rev ?d) @ dropWhile isspace (rev ?d)) = rev (rev ?d)"
    by (simp only: takeWhile_dropWhile_id)
  then have "str_strip s @ ?b = ?d"
    by (simp only: rev_rev_ident rev_append str_strip_def)
  then have "takeWhile isspace s @ str_strip s @ ?b = s"
    by simp
  moreover have "\<forall>c\<in>set (takeWhile isspace s). isspace c"
    by (auto dest: set_takeWhileD)
  moreover have "\<forall>c\<in>set ?b. isspace c"
    by (auto dest: set_takeWhileD)
  ultimately show ?thesis by metis
qed

lemma str_strip_ends:
  assumes "str_strip s \<noteq> []"
  shows "\<not> isspace (hd (str_strip s))" and "\<not> isspace (last (str_strip s))"
proof -
  let ?d = "dropWhile isspace s"
  let ?r = "dropWhile isspace (rev ?d)"
  from assms have r: "?r \<noteq> []" by (simp add: str_strip_def)
  have d: "?d \<noteq> []"
  proof
    assume "?d = []"
    with r show False by simp
  qed
  have "hd (str_strip s) = last ?r" using r by (simp add: str_strip_def hd_rev)
  also have "\<dots> = last (rev ?d)" using r by (rule last_dropWhile)
  also have "\<dots> = hd ?d" using d by (simp add: last_rev)
  finally show "\<not> isspace (hd (str_strip s))" using d by (simp add: hd_dropWhile)
  have "last (str_strip s) = hd ?r" using r by (simp add: str_strip_def last_rev)
  then show "\<not> isspace (last (str_strip s))" using r by (simp add: hd_dropWhile)
qed

lemma dropWhile_all_iff: "(\<forall>c\<in>set (dropWhile P xs). P c) \<longleftrightarrow> dropWhile P xs = []"
proof
  assume all: "\<forall>c\<in>set (dropWhile P xs). P c"
  show "dropWhile P xs = []"
  proof (rule ccontr)
    assume ne: "dropWhile P xs \<noteq> []"
    then have "\<not> P (hd (dropWhile P xs))" by (simp add: hd_dropWhile)
    moreover have "hd (dropWhile P xs) \<in> set (dropWhile P xs)" using ne by simp
    ultimately show False using all by blast
  qed
next
  assume "dropWhile P xs = []"
  then show "\<forall>c\<in>set (dropWhile P xs). P c" by (metis empty_iff empty_set)
qed

lemma str_strip_empty_iff: "str_strip s = [] \<longleftrightarrow> (\<forall>c\<in>set s. isspace c)"
proof -
  have "str_strip s = [] \<longleftrightarrow> (\<forall>c\<in>set (dropWhile isspace s). isspace c)"
    by (simp add: str_strip_def dropWhile_eq_Nil_conv)
  also have "\<dots> \<longleftrightarrow> dropWhile isspace s = []" by (rule dropWhile_all_iff)
  also have "\<dots> \<longleftrightarrow> (\<forall>c\<in>set s. isspace c)" by (simp add: dropWhile_eq_Nil_conv)
  finally show ?thesis .
qed

lemma str_strip_subset: "set (str_strip s) \<subseteq> set s"
proof -
  obtain a b where "s = a @ str_strip s @ b"
    using str_strip_decomp [of s] by blast
  then have "set s = set a \<union> set (str_strip s) \<union> set b"
    by (metis set_append Un_assoc)
  then show ?thesis by blast
qed

lemma str_nat_digits: "d \<in> set (str_nat n) \<Longrightarrow> 48 \<le> d \<and> d \<le> 57"
proof (induction n arbitrary: d rule: str_nat.induct)
  case (1 n)
  show ?case
  proof (cases "n < 10")
    case True
    with "1.prems" show ?thesis by (simp add: str_nat.simps [of n])
  next
    case False
    with "1.prems" "1.IH" show ?thesis
      by (auto simp: str_nat.simps [of n]) 
  qed
qed

lemma decimal_value_str_nat: "decimal_value (str_nat n) = n"
proof (induction n rule: str_nat.induct)
  case (1 n)
  show ?case
  proof (cases "n < 10")
    case True
    then show ?thesis by (simp add: str_nat.simps [of n] decimal_value_def)
  next
    case False
    with "1.IH" show ?thesis
      by (simp add: str_nat.simps [of n] decimal_value_def)
  qed
qed

lemma str_nat_no_leading_zero: "0 < n \<Longrightarrow> hd (str_nat n) \<noteq> 48"
proof (induction n rule: str_nat.induct)
  case (1 n)
  show ?case
  proof (cases "n < 10")
    case True
    with "1.prems" show ?thesis by (simp add: str_nat.simps [of n])
  next
    case False
    then have "str_nat (n div 10) \<noteq> []" by (simp add: str_nat.simps [of "n div 10"])
    with False "1.IH" show ?thesis
      by (simp add: str_nat.simps [of n])
  qed
qed

section \<open>Facts about the operations\<close>

lemma call_tool_list:
  "call_tool e (lit ''list_dotfiles'') arguments =
     (case list_dotfiles e of
        (calls, Inl exc) \<Rightarrow> (calls, Inl exc)
      | (calls, Inr files) \<Rightarrow>
          (calls, Inr [\<lparr>tc_type = lit ''text'', tc_text =
             (if files = [] then lit ''No dotfiles found or git repository not accessible.''
              else lit ''Found '' @ str_nat (length files) @ lit '' dotfiles:\<newline>\<newline>''
                   @ str_join (lit ''\<newline>'') files)\<rparr>]))"
  by (simp add: call_tool_def)

lemma call_tool_get_falsy:
  "\<not> truthy (dict_get arguments (lit ''filepath'') (PyStr [])) \<Longrightarrow>
   call_tool e (lit ''get_dotfile_content'') arguments =
     ([], Inr [\<lparr>tc_type = lit ''text'', tc_text = lit ''Error: filepath is required''\<rparr>])"
  by (simp add: call_tool_def)

lemma call_tool_get_str:
  "arguments (lit ''filepath'') = Some (PyStr fp) \<Longrightarrow> fp \<noteq> [] \<Longrightarrow>
   call_tool e (lit ''get_dotfile_content'') arguments =
     (fst (get_file_content e fp),
      Inr [\<lparr>tc_type = lit ''text'',
            tc_text = lit ''Content of '' @ fp @ lit '':\<newline>\<newline>'' @ snd (get_file_content e fp)\<rparr>])"
  by (simp add: call_tool_def dict_get_def split: prod.splits)

lemma call_tool_get_not_str:
  "arguments (lit ''filepath'') = Some v \<Longrightarrow> truthy v \<Longrightarrow> \<forall>s. v \<noteq> PyStr s \<Longrightarrow>
   call_tool e (lit ''get_dotfile_content'') arguments =
     ([], Inl (Exc (lit ''TypeError'')
                (lit ''join() argument must be str, bytes, or os.PathLike object, not ''
                @ [39] @ type_name v @ [39])))"
  by (cases v) (simp_all add: call_tool_def dict_get_def)

lemma call_tool_unknown:
  "name \<noteq> lit ''list_dotfiles'' \<Longrightarrow> name \<noteq> lit ''get_dotfile_content'' \<Longrightarrow>
   call_tool e name arguments =
     ([], Inr [\<lparr>tc_type = lit ''text'', tc_text = lit ''Unknown tool: '' @ name\<rparr>])"
  by (simp add: call_tool_def)

lemma list_dotfiles_Inr:
  "snd (run_git_command e [lit ''ls-files'']) = Inr r \<Longrightarrow>
   snd (list_dotfiles e) =
     Inr (if returncode r \<noteq> 0 then []
          else filter (\<lambda>l. l \<noteq> []) (map str_strip (str_split (stdout r) newline)))"
  by (cases "run_git_command e [lit ''ls-files'']")
     (simp add: list_dotfiles_def comprehension_map_filter [where P = "\<lambda>l. l \<noteq> []" and f = str_strip])

lemma list_dotfiles_Inl:
  "snd (run_git_command e [lit ''ls-files'']) = Inl exc \<Longrightarrow> snd (list_dotfiles e) = Inl exc"
  by (cases "run_git_command e [lit ''ls-files'']") (simp add: list_dotfiles_def)

lemma os_path_join_relative:
  "\<not> startswith b [slash] \<Longrightarrow>
   os_path_join a b = a @ (if a = [] \<or> endswith a [slash] then [] else [slash]) @ b"
  by (simp add: os_path_join_def)

lemma os_path_join_absolute:
  "startswith b [slash] \<Longrightarrow> os_path_join a b = b"
  by (simp add: os_path_join_def)


lemma get_file_content_calls:
  "fst (get_file_content e filepath) =
     (let full_path = os_path_join (expanduser e (lit ''~'')) filepath
      in if path_exists e full_path then [PathExists full_path, OpenRead full_path]
         else [PathExists full_path])"
  by (simp add: get_file_content_def Let_def)

lemma get_file_content_missing:
  "\<not> path_exists e (os_path_join (expanduser e (lit ''~'')) filepath) \<Longrightarrow>
   snd (get_file_content e filepath) = lit ''File not found: '' @ filepath"
  by (simp add: get_file_content_def Let_def)

lemma get_file_content_read:
  "path_exists e (os_path_join (expanduser e (lit ''~'')) filepath) \<Longrightarrow>
   open_read e (os_path_join (expanduser e (lit ''~'')) filepath) = Inr content \<Longrightarrow>
   snd (get_file_content e filepath) = content"
  by (simp add: get_file_content_def Let_def)

lemma get_file_content_unreadable:
  "path_exists e (os_path_join (expanduser e (lit ''~'')) filepath) \<Longrightarrow>
   open_read e (os_path_join (expanduser e (lit ''~'')) filepath) = Inl exc \<Longrightarrow>
   snd (get_file_content e filepath) = lit ''Error reading file: '' @ exc_str exc"
  by (simp add: get_file_content_def Let_def)

lemma get_file_content_calls_not_Nil: "fst (get_file_content e filepath) \<noteq> []"
  by (simp add: get_file_content_calls Let_def)



section \<open>Facts about decoding and path resolution\<close>

text \<open>The decoder inverts the UTF-8 encoding of every text of scalar values.\<close>

lemma utf8_decode_two:
  "2 \<le> q \<Longrightarrow> q < 32 \<Longrightarrow> r < 64 \<Longrightarrow>
   utf8_decode ((192 + q) # (128 + r) # bs) = map_option ((#) (q * 64 + r)) (utf8_decode bs)"
  by (simp add: is_continuation_def)

lemma utf8_decode_three:
  "q < 16 \<Longrightarrow> r1 < 64 \<Longrightarrow> r2 < 64 \<Longrightarrow> 2048 \<le> q * 4096 + r1 * 64 + r2 \<Longrightarrow>
   \<not> (55296 \<le> q * 4096 + r1 * 64 + r2 \<and> q * 4096 + r1 * 64 + r2 < 57344) \<Longrightarrow>
   utf8_decode ((224 + q) # (128 + r1) # (128 + r2) # bs) =
     map_option ((#) (q * 4096 + r1 * 64 + r2)) (utf8_decode bs)"
  by (simp add: is_continuation_def Let_def)

lemma utf8_decode_four:
  "q < 5 \<Longrightarrow> r1 < 64 \<Longrightarrow> r2 < 64 \<Longrightarrow> r3 < 64 \<Longrightarrow>
   65536 \<le> q * 262144 + r1 * 4096 + r2 * 64 + r3 \<Longrightarrow>
   q * 262144 + r1 * 4096 + r2 * 64 + r3 \<le> 1114111 \<Longrightarrow>
   utf8_decode ((240 + q) # (128 + r1) # (128 + r2) # (128 + r3) # bs) =
     map_option ((#) (q * 262144 + r1 * 4096 + r2 * 64 + r3)) (utf8_decode bs)"
  by (simp add: is_continuation_def Let_def)

lemma digits_two:
  fixes cp :: nat
  shows "cp = cp div 64 * 64 + cp mod 64"
  by simp

lemma digits_three:
  fixes cp :: nat
  shows "cp = cp div 4096 * 4096 + cp div 64 mod 64 * 64 + cp mod 64"
proof -
  define a b c d where "a = cp div 64" and "b = cp mod 64" and "c = a div 64" and "d = a mod 64"
  have "cp = a * 64 + b" "a = c * 64 + d"
    unfolding a_def b_def c_def d_def by simp_all
  then have "cp = c * 4096 + d * 64 + b" by simp
  moreover have "c = cp div 4096"
    unfolding c_def a_def by (simp add: div_mult2_eq [symmetric])
  ultimately show ?thesis
    unfolding a_def b_def d_def by simp
qed

lemma digits_four:
  fixes cp :: nat
  shows "cp = cp div 262144 * 262144 + cp div 4096 mod 64 * 4096 + cp div 64 mod 64 * 64 + cp mod 64"
proof -
  define a b c d f g where "a = cp div 64" and "b = cp mod 64" and "c = a div 64" and "d = a mod 64"
    and "f = c div 64" and "g = c mod 64"
  have "cp = a * 64 + b" "a = c * 64 + d" "c = f * 64 + g"
    unfolding a_def b_def c_def d_def f_def g_def by simp_all
  then have "cp = f * 262144 + g * 4096 + d * 64 + b" by simp
  moreover have c: "c = cp div 4096"
    unfolding c_def a_def by (simp add: div_mult2_eq [symmetric])
  moreover have "f = cp div 262144"
    unfolding f_def c by (simp add: div_mult2_eq [symmetric])
  ultimately show ?thesis
    unfolding a_def b_def d_def g_def by simp
qed

lemma utf8_decode_encode_char:
  assumes "is_scalar_value cp"
  shows "utf8_decode (utf8_encode_char cp @ bs) = map_option ((#) cp) (utf8_decode bs)"
proof -
  consider (one) "cp < 128" | (two) "128 \<le> cp" "cp < 2048" | (three) "2048 \<le> cp" "cp < 65536"
    | (four) "65536 \<le> cp" "cp \<le> 1114111"
    using assms unfolding is_scalar_value_def by linarith
  then show ?thesis
  proof cases
    case one
    then show ?thesis by (simp add: utf8_encode_char_def)
  next
    case two
    have "utf8_decode ((192 + cp div 64) # (128 + cp mod 64) # bs) =
        map_option ((#) (cp div 64 * 64 + cp mod 64)) (utf8_decode bs)"
      by (rule utf8_decode_two) (use two in simp_all)
    moreover have "utf8_encode_char cp = [192 + cp div 64, 128 + cp mod 64]"
      using two by (simp add: utf8_encode_char_def)
    moreover have "cp div 64 * 64 + cp mod 64 = cp"
      by simp
    ultimately show ?thesis
      by (simp only: append_Cons append_Nil)
  next
    case three
    have cp: "cp div 4096 * 4096 + cp div 64 mod 64 * 64 + cp mod 64 = cp"
      by (rule digits_three [symmetric])
    have "utf8_decode ((224 + cp div 4096) # (128 + cp div 64 mod 64) # (128 + cp mod 64) # bs) =
        map_option ((#) (cp div 4096 * 4096 + cp div 64 mod 64 * 64 + cp mod 64)) (utf8_decode bs)"
    proof (rule utf8_decode_three)
      show "cp div 4096 < 16" using three by simp
      show "cp div 64 mod 64 < 64" by simp
      show "cp mod 64 < 64" by simp
      show "2048 \<le> cp div 4096 * 4096 + cp div 64 mod 64 * 64 + cp mod 64"
        using three by (simp only: cp)
      show "\<not> (55296 \<le> cp div 4096 * 4096 + cp div 64 mod 64 * 64 + cp mod 64 \<and>
          cp div 4096 * 4096 + cp div 64 mod 64 * 64 + cp mod 64 < 57344)"
        using assms unfolding cp is_scalar_value_def by linarith
    qed
    moreover have "utf8_encode_char cp =
        [224 + cp div 4096, 128 + cp div 64 mod 64, 128 + cp mod 64]"
      using three by (simp add: utf8_encode_char_def)
    ultimately show ?thesis
      using cp by (simp only: append_Cons append_Nil)
  next
    case four
    have cp: "cp div 262144 * 262144 + cp div 4096 mod 64 * 4096 + cp div 64 mod 64 * 64 + cp mod 64 = cp"
      by (rule digits_four [symmetric])
    have "utf8_decode ((240 + cp div 262144) # (128 + cp div 4096 mod 64) # (128 + cp div 64 mod 64)
          # (128 + cp mod 64) # bs) =
        map_option ((#) (cp div 262144 * 262144 + cp div 4096 mod 64 * 4096 + cp div 64 mod 64 * 64
          + cp mod 64)) (utf8_decode bs)"
    proof (rule utf8_decode_four)
      show "cp div 262144 < 5" using four by simp
      show "cp div 4096 mod 64 < 64" by simp
      show "cp div 64 mod 64 < 64" by simp
      show "cp mod 64 < 64" by simp
      show "65536 \<le> cp div 262144 * 262144 + cp div 4096 mod 64 * 4096 + cp div 64 mod 64 * 64 + cp mod 64"
        using four by (simp only: cp)
      show "cp div 262144 * 262144 + cp div 4096 mod 64 * 4096 + cp div 64 mod 64 * 64 + cp mod 64 \<le> 1114111"
        using four by (simp only: cp)
    qed
    moreover have "utf8_encode_char cp =
        [240 + cp div 262144, 128 + cp div 4096 mod 64, 128 + cp div 64 mod 64, 128 + cp mod 64]"
      using four by (simp add: utf8_encode_char_def)
    ultimately show ?thesis
      using cp by (simp only: append_Cons append_Nil)
  qed
qed

lemma utf8_decode_encode:
  "\<forall>c\<in>set s. is_scalar_value c \<Longrightarrow> utf8_decode (utf8_encode s) = Some s"
  by (induction s) (simp_all add: utf8_encode_def utf8_decode_encode_char del: utf8_decode.simps(2))




lemma resolved_Nil: "resolved [] = []"
  by (simp add: resolved_def)







lemma translate_newlines_id: "13 \<notin> set s \<Longrightarrow> translate_newlines s = s"
  by (induction s rule: translate_newlines.induct) auto

lemma translate_newlines_no_cr: "13 \<notin> set (translate_newlines s)"
  by (induction s rule: translate_newlines.induct) auto

section \<open>The claims\<close>

text \<open>The definitions that evaluate the operations on the sample machines.\<close>

lemmas sample_simps = sample_env_def no_git_env_def no_repo_env_def lit_def slash_def newline_def
  startswith_def endswith_def os_path_join_def open_read_def Let_def

text \<open>
  C1, as amended. For every \<open>filepath\<close> that does not start with a slash,
  \<open>get_file_content\<close> resolves the file by joining the work-tree root (the expansion of
  \<open>~\<close>) with \<open>filepath\<close>: the path it tests and opens is the root, one separator unless
  the root is empty or already ends with one, and \<open>filepath\<close>; it has the root as a
  prefix, and no other path is touched.
\<close>

theorem get_file_content_joins_root:
  assumes "\<not> startswith filepath [slash]"
  shows "(let root = expanduser e (lit ''~'');
              full_path = root @ (if root = [] \<or> endswith root [slash] then [] else [slash]) @ filepath
          in os_path_join root filepath = full_path \<and> prefix root full_path \<and>
             fst (get_file_content e filepath) =
               (if path_exists e full_path then [PathExists full_path, OpenRead full_path]
                else [PathExists full_path]))"
  using assms by (simp add: Let_def get_file_content_calls os_path_join_relative)

theorem get_file_content_joins_root_witness:
  "\<not> startswith (lit ''.bashrc'') [slash] \<and>
   os_path_join (expanduser sample_env (lit ''~'')) (lit ''.bashrc'') = lit ''/home/user/.bashrc'' \<and>
   prefix (expanduser sample_env (lit ''~'')) (lit ''/home/user/.bashrc'') \<and>
   fst (get_file_content sample_env (lit ''.bashrc'')) =
     [PathExists (lit ''/home/user/.bashrc''), OpenRead (lit ''/home/user/.bashrc'')]"
  using get_file_content_joins_root [of "lit ''.bashrc''" sample_env]
  by (simp add: sample_simps)

text \<open>
  C1 as stated fails: with the home directory \<open>/home/user\<close>, the absolute
  \<open>filepath\<close> \<open>/etc/passwd\<close> is itself the path that is tested, opened and read.
\<close>

theorem get_file_content_absolute_counterexample:
  "expanduser sample_env (lit ''~'') = lit ''/home/user'' \<and>
   get_file_content sample_env (lit ''/etc/passwd'') =
     ([PathExists (lit ''/etc/passwd''), OpenRead (lit ''/etc/passwd'')], lit ''root:x:0:0\<newline>'') \<and>
   \<not> prefix (lit ''/home/user'') (lit ''/etc/passwd'')"
  by (simp add: sample_simps get_file_content_def)




text \<open>
  C3. Whatever the completed git run returned, \<open>list_dotfiles\<close> returns the empty list when
  the exit status is not zero; otherwise it returns the fields of standard output between
  newlines, each stripped of leading and trailing whitespace, without the fields that are
  empty after stripping, in the order of the output: nothing is sorted and nothing is
  deduplicated. Every path returned is non-empty, neither starts nor ends with
  whitespace, and holds no newline.
\<close>

theorem list_dotfiles_lines:
  assumes "snd (run_git_command e [lit ''ls-files'']) = Inr r"
  shows "\<exists>files. snd (list_dotfiles e) = Inr files \<and>
           files = (if returncode r \<noteq> 0 then []
                    else filter (\<lambda>l. l \<noteq> []) (map str_strip (str_split (stdout r) newline))) \<and>
           (\<forall>f\<in>set files. f \<noteq> [] \<and> \<not> isspace (hd f) \<and> \<not> isspace (last f) \<and> newline \<notin> set f)"
proof -
  let ?files = "if returncode r \<noteq> 0 then []
                else filter (\<lambda>l. l \<noteq> []) (map str_strip (str_split (stdout r) newline))"
  have "snd (list_dotfiles e) = Inr ?files"
    using assms by (rule list_dotfiles_Inr)
  moreover have "f \<noteq> [] \<and> \<not> isspace (hd f) \<and> \<not> isspace (last f) \<and> newline \<notin> set f"
    if "f \<in> set ?files" for f
  proof -
    from that obtain l where l: "l \<in> set (str_split (stdout r) newline)"
      and f: "f = str_strip l" and ne: "f \<noteq> []"
      by (auto split: if_splits)
    from l have "newline \<notin> set l" by (rule str_split_no_sep)
    with f have "newline \<notin> set f" using str_strip_subset [of l] by blast
    with f ne show ?thesis using str_strip_ends [of l] by simp
  qed
  ultimately show ?thesis by blast
qed

theorem list_dotfiles_lines_witness:
  "snd (run_git_command sample_env [lit ''ls-files'']) =
     Inr \<lparr>returncode = 0,
          stdout = lit ''.bashrc\<newline>  .config/nvim/init.lua \<newline>\<newline>.bashrc\<newline>'',
          stderr = []\<rparr> \<and>
   snd (list_dotfiles sample_env) = Inr [lit ''.bashrc'', lit ''.config/nvim/init.lua'', lit ''.bashrc''] \<and>
   snd (run_git_command no_repo_env [lit ''ls-files'']) =
     Inr \<lparr>returncode = 128, stdout = [],
          stderr = lit ''fatal: not a git repository: '' @ [39] @ lit ''/home/user/.cfg'' @ [39]
                   @ lit ''\<newline>''\<rparr> \<and>
   snd (list_dotfiles no_repo_env) = Inr []"
  using list_dotfiles_lines [of sample_env "\<lparr>returncode = 0,
          stdout = lit ''.bashrc\<newline>  .config/nvim/init.lua \<newline>\<newline>.bashrc\<newline>'',
          stderr = []\<rparr>"]
    list_dotfiles_lines [of no_repo_env
      "\<lparr>returncode = 128, stdout = [],
         stderr = lit ''fatal: not a git repository: '' @ [39] @ lit ''/home/user/.cfg'' @ [39]
                  @ lit ''\<newline>''\<rparr>"]
  by (simp add: sample_simps run_git_command_def str_strip_def isspace_def)

text \<open>
  C4. When \<open>list_dotfiles\<close> returns \<open>files\<close>, the tool \<open>list_dotfiles\<close> answers with the
  literal text \<open>No dotfiles found or git repository not accessible.\<close> exactly when
  \<open>files\<close> is empty, and otherwise with \<open>Found N dotfiles:\<close>, \<open>N\<close> the number of files
  in decimal, a blank line, and the paths one per line in the order of \<open>files\<close>.
\<close>

theorem call_tool_list_dotfiles_text:
  assumes "snd (list_dotfiles e) = Inr files"
  shows "snd (call_tool e (lit ''list_dotfiles'') arguments) =
           Inr [\<lparr>tc_type = lit ''text'',
                 tc_text = (if files = [] then lit ''No dotfiles found or git repository not accessible.''
                            else lit ''Found '' @ str_nat (length files) @ lit '' dotfiles:''
                                 @ [newline, newline] @ str_join [newline] files)\<rparr>] \<and>
         (snd (call_tool e (lit ''list_dotfiles'') arguments) =
            Inr [\<lparr>tc_type = lit ''text'',
                  tc_text = lit ''No dotfiles found or git repository not accessible.''\<rparr>]
          \<longleftrightarrow> files = [])"
proof -
  have response: "snd (call_tool e (lit ''list_dotfiles'') arguments) =
           Inr [\<lparr>tc_type = lit ''text'',
                 tc_text = (if files = [] then lit ''No dotfiles found or git repository not accessible.''
                            else lit ''Found '' @ str_nat (length files) @ lit '' dotfiles:''
                                 @ [newline, newline] @ str_join [newline] files)\<rparr>]"
    using assms unfolding call_tool_list
    by (cases "list_dotfiles e") (simp add: lit_def newline_def)
  have "lit ''Found '' @ rest \<noteq> lit ''No dotfiles found or git repository not accessible.''" for rest
    by (simp add: lit_def)
  with response show ?thesis by simp
qed

theorem call_tool_list_dotfiles_text_witness:
  "snd (list_dotfiles sample_env) = Inr [lit ''.bashrc'', lit ''.config/nvim/init.lua'', lit ''.bashrc''] \<and>
   snd (call_tool sample_env (lit ''list_dotfiles'') Map.empty) =
     Inr [\<lparr>tc_type = lit ''text'',
           tc_text = lit ''Found 3 dotfiles:\<newline>\<newline>.bashrc\<newline>.config/nvim/init.lua\<newline>.bashrc''\<rparr>] \<and>
   snd (list_dotfiles no_repo_env) = Inr [] \<and>
   snd (call_tool no_repo_env (lit ''list_dotfiles'') Map.empty) =
     Inr [\<lparr>tc_type = lit ''text'',
           tc_text = lit ''No dotfiles found or git repository not accessible.''\<rparr>]"
  using call_tool_list_dotfiles_text [of sample_env
      "[lit ''.bashrc'', lit ''.config/nvim/init.lua'', lit ''.bashrc'']" Map.empty]
    call_tool_list_dotfiles_text [of no_repo_env "[]" Map.empty]
  by (simp add: sample_simps call_tool_def list_dotfiles_def run_git_command_def str_strip_def
      isspace_def str_nat.simps)

text \<open>
  C5, as amended. For every non-empty \<open>filepath\<close> whose joined path exists and holds
  bytes that are UTF-8 for a text \<open>content\<close>, the tool \<open>get_dotfile_content\<close> answers with
  exactly \<open>Content of {filepath}:\<close>, a blank line, and \<open>content\<close> in which every \<open>\r\n\<close>
  and every other \<open>\r\<close> is replaced by \<open>\n\<close>; when \<open>content\<close> holds no \<open>\r\<close>, that is
  \<open>content\<close> itself. The sample machine holds \<open>.bashrc\<close> with the content
  \<open>export X=1\<close> and a newline.
\<close>

theorem call_tool_get_content:
  assumes "arguments (lit ''filepath'') = Some (PyStr filepath)"
    and "filepath \<noteq> []"
    and "path_exists e (os_path_join (expanduser e (lit ''~'')) filepath)"
    and "read_bytes e (os_path_join (expanduser e (lit ''~'')) filepath) = Inr bs"
    and "utf8_decode bs = Some content"
  shows "snd (call_tool e (lit ''get_dotfile_content'') arguments) =
           Inr [\<lparr>tc_type = lit ''text'',
                 tc_text = lit ''Content of '' @ filepath @ lit '':'' @ [newline, newline]
                           @ translate_newlines content\<rparr>] \<and>
         (13 \<notin> set content \<longrightarrow>
            snd (call_tool e (lit ''get_dotfile_content'') arguments) =
              Inr [\<lparr>tc_type = lit ''text'',
                    tc_text = lit ''Content of '' @ filepath @ lit '':'' @ [newline, newline] @ content\<rparr>])"
proof -
  have "open_read e (os_path_join (expanduser e (lit ''~'')) filepath) =
      Inr (translate_newlines content)"
    using assms(4,5) by (simp add: open_read_def)
  with assms(1-3) have "snd (call_tool e (lit ''get_dotfile_content'') arguments) =
      Inr [\<lparr>tc_type = lit ''text'',
            tc_text = lit ''Content of '' @ filepath @ lit '':'' @ [newline, newline]
                      @ translate_newlines content\<rparr>]"
    by (simp add: call_tool_get_str get_file_content_read) (simp add: lit_def newline_def)
  then show ?thesis by (simp add: translate_newlines_id)
qed

theorem call_tool_get_content_witness:
  "[lit ''filepath'' \<mapsto> PyStr (lit ''.bashrc'')] (lit ''filepath'') = Some (PyStr (lit ''.bashrc'')) \<and>
   lit ''.bashrc'' \<noteq> [] \<and>
   os_path_join (expanduser sample_env (lit ''~'')) (lit ''.bashrc'') = lit ''/home/user/.bashrc'' \<and>
   path_exists sample_env (lit ''/home/user/.bashrc'') \<and>
   read_bytes sample_env (lit ''/home/user/.bashrc'') = Inr (lit ''export X=1\<newline>'') \<and>
   utf8_decode (lit ''export X=1\<newline>'') = Some (lit ''export X=1\<newline>'') \<and>
   13 \<notin> set (lit ''export X=1\<newline>'') \<and>
   snd (call_tool sample_env (lit ''get_dotfile_content'') [lit ''filepath'' \<mapsto> PyStr (lit ''.bashrc'')]) =
     Inr [\<lparr>tc_type = lit ''text'',
           tc_text = lit ''Content of .bashrc:\<newline>\<newline>export X=1\<newline>''\<rparr>]"
  using call_tool_get_content [of "[lit ''filepath'' \<mapsto> PyStr (lit ''.bashrc'')]" "lit ''.bashrc''"
      sample_env "lit ''export X=1\<newline>''" "lit ''export X=1\<newline>''"]
  by (simp add: sample_simps)

text \<open>
  C5 as stated fails: \<open>notes.txt\<close> on the sample machine holds the seven bytes of
  \<open>a\r\nb\rc\n\<close>, which are UTF-8 for that same text of seven characters, and the answer
  carries the six characters \<open>a\nb\nc\n\<close> instead.
\<close>

theorem call_tool_get_content_newlines_counterexample:
  "lit ''notes.txt'' \<noteq> [] \<and>
   os_path_join (expanduser sample_env (lit ''~'')) (lit ''notes.txt'') = lit ''/home/user/notes.txt'' \<and>
   path_exists sample_env (lit ''/home/user/notes.txt'') \<and>
   read_bytes sample_env (lit ''/home/user/notes.txt'') = Inr [97, 13, 10, 98, 13, 99, 10] \<and>
   utf8_decode [97, 13, 10, 98, 13, 99, 10] = Some [97, 13, 10, 98, 13, 99, 10] \<and>
   snd (call_tool sample_env (lit ''get_dotfile_content'') [lit ''filepath'' \<mapsto> PyStr (lit ''notes.txt'')]) =
     Inr [\<lparr>tc_type = lit ''text'',
           tc_text = lit ''Content of notes.txt:\<newline>\<newline>a\<newline>b\<newline>c\<newline>''\<rparr>] \<and>
   snd (call_tool sample_env (lit ''get_dotfile_content'') [lit ''filepath'' \<mapsto> PyStr (lit ''notes.txt'')]) \<noteq>
     Inr [\<lparr>tc_type = lit ''text'',
           tc_text = lit ''Content of notes.txt:\<newline>\<newline>'' @ [97, 13, 10, 98, 13, 99, 10]\<rparr>]"
  by (simp add: sample_simps call_tool_def dict_get_def get_file_content_def)

text \<open>
  C6. For every non-empty \<open>filepath\<close> whose joined path does not exist, the tool
  \<open>get_dotfile_content\<close> answers with the not-found message as ordinary text under the
  content header, \<open>Content of {filepath}:\<close>, a blank line, \<open>File not found: {filepath}\<close>,
  and raises nothing.
\<close>

theorem call_tool_get_missing:
  assumes "arguments (lit ''filepath'') = Some (PyStr filepath)"
    and "filepath \<noteq> []"
    and "\<not> path_exists e (os_path_join (expanduser e (lit ''~'')) filepath)"
  shows "snd (call_tool e (lit ''get_dotfile_content'') arguments) =
           Inr [\<lparr>tc_type = lit ''text'',
                 tc_text = lit ''Content of '' @ filepath @ lit '':'' @ [newline, newline]
                           @ lit ''File not found: '' @ filepath\<rparr>]"
  using assms
  by (simp add: call_tool_get_str get_file_content_missing) (simp add: lit_def newline_def)

theorem call_tool_get_missing_witness:
  "[lit ''filepath'' \<mapsto> PyStr (lit ''nope.txt'')] (lit ''filepath'') = Some (PyStr (lit ''nope.txt'')) \<and>
   lit ''nope.txt'' \<noteq> [] \<and>
   os_path_join (expanduser sample_env (lit ''~'')) (lit ''nope.txt'') = lit ''/home/user/nope.txt'' \<and>
   \<not> path_exists sample_env (lit ''/home/user/nope.txt'') \<and>
   snd (call_tool sample_env (lit ''get_dotfile_content'') [lit ''filepath'' \<mapsto> PyStr (lit ''nope.txt'')]) =
     Inr [\<lparr>tc_type = lit ''text'',
           tc_text = lit ''Content of nope.txt:\<newline>\<newline>File not found: nope.txt''\<rparr>]"
  using call_tool_get_missing [of "[lit ''filepath'' \<mapsto> PyStr (lit ''nope.txt'')]" "lit ''nope.txt''"
      sample_env]
  by (simp add: sample_simps)

text \<open>
  C7. When the key \<open>filepath\<close> is absent from the arguments or maps to the empty string,
  the tool \<open>get_dotfile_content\<close> answers with exactly the one text
  \<open>Error: filepath is required\<close>, raises nothing, and makes no call to the operating
  system: \<open>get_file_content\<close>, which always tests a path, is not called.
\<close>

theorem call_tool_filepath_required:
  assumes "arguments (lit ''filepath'') = None \<or> arguments (lit ''filepath'') = Some (PyStr [])"
  shows "call_tool e (lit ''get_dotfile_content'') arguments =
           ([], Inr [\<lparr>tc_type = lit ''text'', tc_text = lit ''Error: filepath is required''\<rparr>])"
  using assms by (auto simp: call_tool_get_falsy dict_get_def)

theorem call_tool_filepath_required_witness:
  "Map.empty (lit ''filepath'') = (None :: pyval option) \<and>
   call_tool sample_env (lit ''get_dotfile_content'') Map.empty =
     ([], Inr [\<lparr>tc_type = lit ''text'', tc_text = lit ''Error: filepath is required''\<rparr>]) \<and>
   [lit ''filepath'' \<mapsto> PyStr (lit '''')] (lit ''filepath'') = Some (PyStr []) \<and>
   call_tool sample_env (lit ''get_dotfile_content'') [lit ''filepath'' \<mapsto> PyStr (lit '''')] =
     ([], Inr [\<lparr>tc_type = lit ''text'', tc_text = lit ''Error: filepath is required''\<rparr>])"
  using call_tool_filepath_required [of Map.empty sample_env]
    call_tool_filepath_required [of "[lit ''filepath'' \<mapsto> PyStr (lit '''')]" sample_env]
  by simp

text \<open>
  C8. For every tool name other than \<open>list_dotfiles\<close> and \<open>get_dotfile_content\<close>, and
  every argument mapping, \<open>call_tool\<close> answers with exactly \<open>Unknown tool: {name}\<close> and
  touches nothing.
\<close>

theorem call_tool_unknown_tool:
  assumes "name \<noteq> lit ''list_dotfiles''" and "name \<noteq> lit ''get_dotfile_content''"
  shows "call_tool e name arguments =
           ([], Inr [\<lparr>tc_type = lit ''text'', tc_text = lit ''Unknown tool: '' @ name\<rparr>])"
  using assms by (rule call_tool_unknown)

theorem call_tool_unknown_tool_witness:
  "lit ''unknown_tool'' \<noteq> lit ''list_dotfiles'' \<and> lit ''unknown_tool'' \<noteq> lit ''get_dotfile_content'' \<and>
   call_tool sample_env (lit ''unknown_tool'') Map.empty =
     ([], Inr [\<lparr>tc_type = lit ''text'', tc_text = lit ''Unknown tool: unknown_tool''\<rparr>])"
  using call_tool_unknown_tool [of "lit ''unknown_tool''" sample_env Map.empty]
  by (simp add: lit_def)

text \<open>
  C9. For every tool name and every argument mapping, a response that \<open>call_tool\<close>
  returns consists of exactly one segment, and that segment is of type \<open>text\<close>.
\<close>

theorem call_tool_one_segment:
  assumes "snd (call_tool e name arguments) = Inr response"
  shows "length response = 1 \<and> (\<exists>txt. response = [\<lparr>tc_type = lit ''text'', tc_text = txt\<rparr>])"
proof -
  consider (list) "name = lit ''list_dotfiles''"
    | (get) "name = lit ''get_dotfile_content''"
    | (other) "name \<noteq> lit ''list_dotfiles''" "name \<noteq> lit ''get_dotfile_content''"
    by blast
  then show ?thesis
  proof cases
    case list
    obtain calls res where res: "list_dotfiles e = (calls, res)"
      by (cases "list_dotfiles e")
    with assms show ?thesis
      unfolding list call_tool_list by (cases res) auto
  next
    case get
    show ?thesis
    proof (cases "truthy (dict_get arguments (lit ''filepath'') (PyStr []))")
      case False
      with assms show ?thesis unfolding get by (auto simp: call_tool_get_falsy)
    next
      case True
      then obtain v where v: "arguments (lit ''filepath'') = Some v" "truthy v"
        by (cases "arguments (lit ''filepath'')") (simp_all add: dict_get_def)
      show ?thesis
      proof (cases "\<exists>fp. v = PyStr fp")
        case True
        then obtain fp where "v = PyStr fp" by blast
        with v have "arguments (lit ''filepath'') = Some (PyStr fp)" "fp \<noteq> []" by simp_all
        with assms show ?thesis unfolding get by (auto simp: call_tool_get_str)
      next
        case False
        with v assms show ?thesis unfolding get by (simp add: call_tool_get_not_str)
      qed
    qed
  next
    case other
    with assms show ?thesis by (auto simp: call_tool_unknown)
  qed
qed

theorem call_tool_one_segment_witness:
  "snd (call_tool sample_env (lit ''list_dotfiles'') Map.empty) =
     Inr [\<lparr>tc_type = lit ''text'',
           tc_text = lit ''Found 3 dotfiles:\<newline>\<newline>.bashrc\<newline>.config/nvim/init.lua\<newline>.bashrc''\<rparr>] \<and>
   length [\<lparr>tc_type = lit ''text'',
           tc_text = lit ''Found 3 dotfiles:\<newline>\<newline>.bashrc\<newline>.config/nvim/init.lua\<newline>.bashrc''\<rparr>] = 1"
  using call_tool_one_segment [of sample_env "lit ''list_dotfiles''" Map.empty
      "[\<lparr>tc_type = lit ''text'',
         tc_text = lit ''Found 3 dotfiles:\<newline>\<newline>.bashrc\<newline>.config/nvim/init.lua\<newline>.bashrc''\<rparr>]"]
  by (simp add: sample_simps call_tool_def list_dotfiles_def run_git_command_def str_strip_def
      isspace_def str_nat.simps)




end
